theory Spec2Isabelle
  imports Complex_Main
begin

section \<open>JavaScript values of the sitemap module\<close>

text \<open>
  The module under verification is \<^verbatim>\<open>app/utils/sitemap.server.ts\<close>. It handles two kinds of
  JavaScript values: the raw values that an entry function hands back (anything at all, since
  the check of their shape happens at run time), and the field values of an entry that
  passed the schema.

  Numbers are modelled by their rational value (NaN and the infinities are not represented,
  they fail every literal check of the schema). A valid \<^verbatim>\<open>Date\<close> is represented by the text
  \<^verbatim>\<open>toISOString()\<close> prints for it, which determines its time value; \<open>RDate None\<close> is the
  invalid Date. A JavaScript object is the list of its own enumerable properties in
  insertion order, looked up by key with \<open>map_of\<close>.
\<close>

datatype js_error = TypeError | Thrown string

datatype raw =
    RUndefined
  | RNull
  | RBoolean bool
  | RNumber rat
  | RString string
  | RDate "string option"
  | RFunction
  | RArray "raw list"
  | RObject "(string \<times> raw) list"

text \<open>
  The type \<^verbatim>\<open>SitemapEntry\<close> inferred from the schema:
  \<^verbatim>\<open>{ route: string; lastmod?: Date; changefreq?: ...; priority?: ... }\<close>.
  An optional property of a JavaScript object is in one of three states, and
  \<^verbatim>\<open>Object.keys\<close> tells the first from the other two: the key is absent, the key is
  present and bound to \<^verbatim>\<open>undefined\<close>, or the key is bound to a value.
\<close>

datatype 'a optional = Absent | Undefined | Defined 'a

record SitemapEntry =
  route :: string
  lastmod :: "string optional"
  changefreq :: "string optional"
  priority :: "rat optional"

datatype warning =
    NoManifestEntry string
  | InvalidSitemapEntries string
  | DuplicateRoute string SitemapEntry SitemapEntry

text \<open>
  What a call does: it loops forever, it throws, or it returns a value after having written
  some warnings to the console.
\<close>

datatype 'a outcome = Diverges | Throws js_error | Returns 'a "warning list"

section \<open>The route tree\<close>

record manifest_entry =
  path :: "string option"
  index :: bool
  parentId :: "string option"

record 'req GetSitemapArgs =
  arg_id :: string
  arg_request :: 'req

text \<open>
  The property \<^verbatim>\<open>getSitemapEntries\<close> of a handle: not declared (or \<^verbatim>\<open>undefined\<close>), declared
  \<^verbatim>\<open>null\<close>, a function, or some other value. The function is modelled by what it returns
  or throws for an identifier and a request; the third member of its argument, the route
  tree itself, is left out of the argument record (the type would contain itself).
  A handle is \<^verbatim>\<open>undefined\<close>, an object, or any other value (\<^verbatim>\<open>null\<close>, a primitive, an array),
  on which \<^verbatim>\<open>?.getSitemapEntries\<close> reads \<^verbatim>\<open>undefined\<close>.
\<close>

datatype 'req getSitemapEntries_prop =
    GseUndefined
  | GseNull
  | GseFunction "'req GetSitemapArgs \<Rightarrow> js_error + raw"
  | GseOther

datatype 'req handle_value =
    HandleUndefined
  | HandleObject "'req getSitemapEntries_prop"
  | HandleOther

record 'req route_module =
  has_default :: bool
  handle :: "'req handle_value"

record 'req RemixContext =
  manifest_routes :: "string \<Rightarrow> manifest_entry option"
  routeModules :: "(string \<times> 'req route_module) list"

section \<open>The default resolver\<close>

text \<open>\<^verbatim>\<open>s.endsWith(suffix)\<close>\<close>

definition endsWith :: "string \<Rightarrow> string \<Rightarrow> bool" where
  "endsWith s suffix =
     (length suffix \<le> length s \<and> drop (length s - length suffix) s = suffix)"

text \<open>\<^verbatim>\<open>s.endsWith('/') ? s.slice(0, -1) : s\<close>\<close>

definition removeTrailingSlash :: "string \<Rightarrow> string" where
  "removeTrailingSlash s = (if endsWith s ''/'' then take (length s - 1) s else s)"

text \<open>\<^verbatim>\<open>parentId ? routes[parentId] : null\<close>: the empty string is falsy.\<close>

definition parent_of ::
  "'req RemixContext \<Rightarrow> string option \<Rightarrow> (string \<times> manifest_entry) option" where
  "parent_of ctx pid =
     (case pid of
        None \<Rightarrow> None
      | Some i \<Rightarrow>
          if i = [] then None
          else (case manifest_routes ctx i of None \<Rightarrow> None | Some parent \<Rightarrow> Some (i, parent)))"

text \<open>\<^verbatim>\<open>routeModules[parentId].handle?.getSitemapEntries === null\<close>\<close>

definition opted_out :: "'req route_module \<Rightarrow> bool" where
  "opted_out m = (case handle m of HandleObject GseNull \<Rightarrow> True | _ \<Rightarrow> False)"

text \<open>\<^verbatim>\<open>parent.path ? removeTrailingSlash(parent.path) : ''\<close>\<close>

definition parentPath :: "manifest_entry \<Rightarrow> string" where
  "parentPath parent =
     (case path parent of
        None \<Rightarrow> []
      | Some s \<Rightarrow> if s = [] then [] else removeTrailingSlash s)"

text \<open>
  The \<^verbatim>\<open>while (parent)\<close> loop. The variable \<^verbatim>\<open>parent\<close> is always
  \<open>parent_of ctx parentId\<close>, so the loop state is the parent identifier and the path built
  so far. The result is \<open>None\<close> when the loop never ends (a cycle of parents),
  \<open>Some (Inl TypeError)\<close> when a parent has no module (reading \<^verbatim>\<open>.handle\<close> of
  \<^verbatim>\<open>undefined\<close>), \<open>Some (Inr None)\<close> for the \<^verbatim>\<open>return null\<close> inside the loop, and
  \<open>Some (Inr (Some p))\<close> when the loop ends with path \<open>p\<close>.
\<close>

partial_function (option) walk_parents ::
  "'req RemixContext \<Rightarrow> string option \<Rightarrow> string \<Rightarrow> (js_error + string option) option" where
  "walk_parents ctx pid acc =
     (case parent_of ctx pid of
        None \<Rightarrow> Some (Inr (Some acc))
      | Some (i, parent) \<Rightarrow>
          (case map_of (routeModules ctx) i of
             None \<Rightarrow> Some (Inl TypeError)
           | Some m \<Rightarrow>
               if opted_out m then Some (Inr None)
               else walk_parents ctx (parentId parent) (parentPath parent @ ''/'' @ acc)))"

declare walk_parents.simps [code]

text \<open>The route's own segment (lines 92 to 99): \<open>None\<close> is the \<^verbatim>\<open>return null\<close>.\<close>

definition own_segment :: "manifest_entry \<Rightarrow> string option" where
  "own_segment manifestEntry =
     (case path manifestEntry of
        Some s \<Rightarrow>
          if s \<noteq> [] then Some (removeTrailingSlash s)
          else if index manifestEntry then Some [] else None
      | None \<Rightarrow> if index manifestEntry then Some [] else None)"

definition defaultGetSitemapHandle :: "'req RemixContext \<Rightarrow> string \<Rightarrow> raw outcome" where
  "defaultGetSitemapHandle ctx rid =
     (case manifest_routes ctx rid of
        None \<Rightarrow> Returns RNull [NoManifestEntry rid]
      | Some manifestEntry \<Rightarrow>
          (case own_segment manifestEntry of
             None \<Rightarrow> Returns RNull []
           | Some seg \<Rightarrow>
               (case walk_parents ctx (parentId manifestEntry) seg of
                  None \<Rightarrow> Diverges
                | Some (Inl e) \<Rightarrow> Throws e
                | Some (Inr None) \<Rightarrow> Returns RNull []
                | Some (Inr (Some full)) \<Rightarrow>
                    if CHR '':'' \<in> set full then Returns RNull []
                    else if rid = ''root'' then Returns RNull []
                    else Returns (RObject [(''route'', RString (removeTrailingSlash full))]) [])))"

section \<open>The schemas\<close>

text \<open>
  The schemas are zod schemas (version 3). Their run-time check is modelled as follows. An
  object schema accepts plain objects only (not \<^verbatim>\<open>null\<close>, not an array, not a Date), reads
  each declared key, and drops every other key. \<^verbatim>\<open>.optional()\<close> accepts \<^verbatim>\<open>undefined\<close>.
  The parsed object has a declared key when the parsed value is not \<^verbatim>\<open>undefined\<close> or when
  the key is in the input (an optional key bound to \<^verbatim>\<open>undefined\<close> stays, bound to
  \<^verbatim>\<open>undefined\<close>). \<^verbatim>\<open>z.date()\<close> refuses the invalid Date.
\<close>

definition get_prop :: "(string \<times> raw) list \<Rightarrow> string \<Rightarrow> raw" where
  "get_prop props k = (case map_of props k of None \<Rightarrow> RUndefined | Some v \<Rightarrow> v)"

definition changefreq_enum :: "string list" where
  "changefreq_enum =
     [''always'', ''hourly'', ''daily'', ''weekly'', ''monthly'', ''yearly'', ''never'']"

definition priority_literals :: "rat list" where
  "priority_literals = [0, 1/10, 2/10, 3/10, 4/10, 5/10, 6/10, 7/10, 8/10, 9/10, 1]"

text \<open>
  The three optional fields: \<open>None\<close> is a validation issue, \<open>Some None\<close> the value
  \<^verbatim>\<open>undefined\<close>.
\<close>

definition parse_lastmod :: "raw \<Rightarrow> string option option" where
  "parse_lastmod v =
     (case v of RUndefined \<Rightarrow> Some None | RDate (Some d) \<Rightarrow> Some (Some d) | _ \<Rightarrow> None)"

definition parse_changefreq :: "raw \<Rightarrow> string option option" where
  "parse_changefreq v =
     (case v of
        RUndefined \<Rightarrow> Some None
      | RString s \<Rightarrow> if s \<in> set changefreq_enum then Some (Some s) else None
      | _ \<Rightarrow> None)"

definition parse_priority :: "raw \<Rightarrow> rat option option" where
  "parse_priority v =
     (case v of
        RUndefined \<Rightarrow> Some None
      | RNumber r \<Rightarrow> if r \<in> set priority_literals then Some (Some r) else None
      | _ \<Rightarrow> None)"

definition parsed_prop :: "(string \<times> raw) list \<Rightarrow> string \<Rightarrow> 'a option \<Rightarrow> 'a optional" where
  "parsed_prop props k v =
     (case v of
        Some x \<Rightarrow> Defined x
      | None \<Rightarrow> if k \<in> set (map fst props) then Undefined else Absent)"

definition SitemapEntrySchema_safeParse :: "raw \<Rightarrow> SitemapEntry option" where
  "SitemapEntrySchema_safeParse v =
     (case v of
        RObject props \<Rightarrow>
          (case get_prop props ''route'' of
             RString r \<Rightarrow>
               (case parse_lastmod (get_prop props ''lastmod'') of
                  None \<Rightarrow> None
                | Some l \<Rightarrow>
                    (case parse_changefreq (get_prop props ''changefreq'') of
                       None \<Rightarrow> None
                     | Some c \<Rightarrow>
                         (case parse_priority (get_prop props ''priority'') of
                            None \<Rightarrow> None
                          | Some p \<Rightarrow>
                              Some \<lparr> route = r,
                                     lastmod = parsed_prop props ''lastmod'' l,
                                     changefreq = parsed_prop props ''changefreq'' c,
                                     priority = parsed_prop props ''priority'' p \<rparr>)))
           | _ \<Rightarrow> None)
      | _ \<Rightarrow> None)"

text \<open>
  \<^verbatim>\<open>z.array(SitemapEntrySchema).nullable()\<close>: the outer \<open>None\<close> is a failed parse, the
  inner one the value \<^verbatim>\<open>null\<close>. The array fails as soon as one element fails.
\<close>

definition SitemapEntriesSchema_safeParse :: "raw \<Rightarrow> SitemapEntry list option option" where
  "SitemapEntriesSchema_safeParse v =
     (case v of
        RNull \<Rightarrow> Some None
      | RArray xs \<Rightarrow>
          (case those (map SitemapEntrySchema_safeParse xs) of
             None \<Rightarrow> None
           | Some entries \<Rightarrow> Some (Some entries))
      | _ \<Rightarrow> None)"

text \<open>
  \<^verbatim>\<open>HandleSchema.safeParse(mod.handle)\<close> followed by \<^verbatim>\<open>data?.getSitemapEntries\<close>:
  \<open>None\<close> is a failed parse.
\<close>

definition HandleSchema_safeParse ::
  "'req handle_value \<Rightarrow> 'req getSitemapEntries_prop option" where
  "HandleSchema_safeParse h =
     (case h of
        HandleUndefined \<Rightarrow> Some GseUndefined
      | HandleObject GseOther \<Rightarrow> None
      | HandleObject g \<Rightarrow> Some g
      | HandleOther \<Rightarrow> None)"

section \<open>The collector\<close>

text \<open>
  Lines 171 to 181, for the value \<open>rawEntries\<close> an entry function returned.
  \<^verbatim>\<open>entries.flat().filter(Boolean)\<close> keeps a list of parsed entries as it is: each is an
  object, neither an array nor falsy.
\<close>

definition rawEntryArray :: "raw \<Rightarrow> raw" where
  "rawEntryArray rawEntries = (case rawEntries of RArray xs \<Rightarrow> rawEntries | _ \<Rightarrow> RArray [rawEntries])"

definition validate_entries :: "string \<Rightarrow> raw \<Rightarrow> warning list \<Rightarrow> SitemapEntry list option outcome" where
  "validate_entries rid rawEntries ws =
     (if rawEntries = RNull then Returns None ws
      else
        (case SitemapEntriesSchema_safeParse (rawEntryArray rawEntries) of
           None \<Rightarrow> Returns None (ws @ [InvalidSitemapEntries rid])
         | Some entries \<Rightarrow> Returns entries ws))"

text \<open>
  \<^verbatim>\<open>await (routeGetSitemapEntries ?? defaultGetSitemapHandle)({ request, id, remixContext })\<close>.
  An entry function of a route either throws or returns a raw value (a promise is awaited).
\<close>

definition call_entry_function ::
  "'req RemixContext \<Rightarrow> 'req \<Rightarrow> string \<Rightarrow> 'req getSitemapEntries_prop \<Rightarrow> raw outcome" where
  "call_entry_function ctx request rid g =
     (case g of
        GseFunction f \<Rightarrow>
          (case f \<lparr> arg_id = rid, arg_request = request \<rparr> of
             Inl e \<Rightarrow> Throws e
           | Inr v \<Rightarrow> Returns v [])
      | GseUndefined \<Rightarrow> defaultGetSitemapHandle ctx rid
      | GseNull \<Rightarrow> defaultGetSitemapHandle ctx rid
      | GseOther \<Rightarrow> Throws TypeError)"

text \<open>\<^verbatim>\<open>routeGetSitemapEntries === null\<close> and \<^verbatim>\<open>!routeGetSitemapEntries\<close>\<close>

definition is_null :: "'req getSitemapEntries_prop \<Rightarrow> bool" where
  "is_null g = (case g of GseNull \<Rightarrow> True | _ \<Rightarrow> False)"

definition falsy :: "'req getSitemapEntries_prop \<Rightarrow> bool" where
  "falsy g = (case g of GseUndefined \<Rightarrow> True | GseNull \<Rightarrow> True | _ \<Rightarrow> False)"

text \<open>The function mapped over \<^verbatim>\<open>Object.entries(remixContext.routeModules)\<close>.\<close>

definition collect_route ::
  "'req RemixContext \<Rightarrow> 'req \<Rightarrow> string \<times> 'req route_module \<Rightarrow> SitemapEntry list option outcome" where
  "collect_route ctx request r =
     (let rid = fst r; m = snd r in
      if rid = ''root'' then Returns None []
      else
        let isResourceRoute = \<not> has_default m in
        (case HandleSchema_safeParse (handle m) of
           None \<Rightarrow> Returns None []
         | Some routeGetSitemapEntries \<Rightarrow>
             if is_null routeGetSitemapEntries then Returns None []
             else if falsy routeGetSitemapEntries \<and> isResourceRoute then Returns None []
             else
               (case call_entry_function ctx request rid routeGetSitemapEntries of
                  Diverges \<Rightarrow> Diverges
                | Throws e \<Rightarrow> Throws e
                | Returns rawEntries ws \<Rightarrow> validate_entries rid rawEntries ws)))"

text \<open>
  \<^verbatim>\<open>await Promise.all(...)\<close> over the routes in the order of \<^verbatim>\<open>Object.entries\<close>: the whole
  never returns if one route never returns, it throws if one route throws (the first in the
  list is reported here), and otherwise it returns the list of the results.
\<close>

fun promise_all :: "'a outcome list \<Rightarrow> 'a list outcome" where
  "promise_all [] = Returns [] []"
| "promise_all (r # rs) =
     (case r of
        Diverges \<Rightarrow> Diverges
      | Throws e \<Rightarrow> (case promise_all rs of Diverges \<Rightarrow> Diverges | _ \<Rightarrow> Throws e)
      | Returns v ws \<Rightarrow>
          (case promise_all rs of
             Diverges \<Rightarrow> Diverges
           | Throws e \<Rightarrow> Throws e
           | Returns vs ws' \<Rightarrow> Returns (v # vs) (ws @ ws')))"

text \<open>\<^verbatim>\<open>.flatMap(z => z).filter(Boolean)\<close>\<close>

definition flatten_results :: "'a list option list \<Rightarrow> 'a list" where
  "flatten_results results = concat (map (\<lambda>z. case z of None \<Rightarrow> [] | Some es \<Rightarrow> es) results)"

definition rawSitemapEntries :: "'req RemixContext \<Rightarrow> 'req \<Rightarrow> SitemapEntry list outcome" where
  "rawSitemapEntries ctx request =
     (case promise_all (map (collect_route ctx request) (routeModules ctx)) of
        Diverges \<Rightarrow> Diverges
      | Throws e \<Rightarrow> Throws e
      | Returns results ws \<Rightarrow> Returns (flatten_results results) ws)"

section \<open>The deduplicator\<close>

text \<open>
  \<^verbatim>\<open>isEqual\<close> is called on two parsed entries. \<open>Object_keys\<close> lists the own keys of an entry
  in the order the schema declares them, \<open>get_field\<close> reads \<^verbatim>\<open>obj[key]\<close>. The only field
  value with \<^verbatim>\<open>typeof\<close> equal to \<^verbatim>\<open>'object'\<close> is a Date, so the recursive call compares two
  Dates: a Date has no own enumerable key, and its loop runs over the empty list.
\<close>

datatype js_value = VUndefined | VString string | VNumber rat | VDate string

definition Object_keys :: "SitemapEntry \<Rightarrow> string list" where
  "Object_keys obj =
     [''route'']
     @ (if lastmod obj = Absent then [] else [''lastmod''])
     @ (if changefreq obj = Absent then [] else [''changefreq''])
     @ (if priority obj = Absent then [] else [''priority''])"

definition get_field :: "SitemapEntry \<Rightarrow> string \<Rightarrow> js_value" where
  "get_field obj key =
     (if key = ''route'' then VString (route obj)
      else if key = ''lastmod'' then (case lastmod obj of Defined d \<Rightarrow> VDate d | _ \<Rightarrow> VUndefined)
      else if key = ''changefreq'' then (case changefreq obj of Defined c \<Rightarrow> VString c | _ \<Rightarrow> VUndefined)
      else if key = ''priority'' then (case priority obj of Defined p \<Rightarrow> VNumber p | _ \<Rightarrow> VUndefined)
      else VUndefined)"

definition typeof_object :: "js_value \<Rightarrow> bool" where
  "typeof_object v = (case v of VDate d \<Rightarrow> True | _ \<Rightarrow> False)"

text \<open>
  \<^verbatim>\<open>Object.keys(d)\<close> and \<^verbatim>\<open>d[key]\<close> for a Date \<open>d\<close>: no own enumerable key, and so no value
  under one.
\<close>

definition Object_keys_Date :: "js_value \<Rightarrow> string list" where
  "Object_keys_Date d = []"

definition get_Date :: "js_value \<Rightarrow> string \<Rightarrow> js_value" where
  "get_Date d key = VUndefined"

definition isEqual_Date :: "js_value \<Rightarrow> js_value \<Rightarrow> bool" where
  "isEqual_Date obj1 obj2 =
     (let keys1 = Object_keys_Date obj1; keys2 = Object_keys_Date obj2 in
      if length keys1 \<noteq> length keys2 then False
      else list_all (\<lambda>key. get_Date obj1 key = get_Date obj2 key) keys1)"

definition isEqual :: "SitemapEntry \<Rightarrow> SitemapEntry \<Rightarrow> bool" where
  "isEqual obj1 obj2 =
     (let keys1 = Object_keys obj1; keys2 = Object_keys obj2 in
      if length keys1 \<noteq> length keys2 then False
      else
        list_all
          (\<lambda>key.
             let val1 = get_field obj1 key; val2 = get_field obj2 key in
             if typeof_object val1 \<and> typeof_object val2 then isEqual_Date val1 val2
             else val1 = val2)
          keys1)"

text \<open>The loop of lines 189 to 204, with the console warnings it writes.\<close>

fun dedupe ::
  "SitemapEntry list \<Rightarrow> SitemapEntry list \<times> warning list \<Rightarrow> SitemapEntry list \<times> warning list" where
  "dedupe [] st = st"
| "dedupe (entry # rest) (sitemapEntries, ws) =
     (case find (\<lambda>e. route e = route entry) sitemapEntries of
        Some existingEntryForRoute \<Rightarrow>
          if \<not> isEqual existingEntryForRoute entry
          then dedupe rest (sitemapEntries, ws @ [DuplicateRoute (route entry) entry existingEntryForRoute])
          else dedupe rest (sitemapEntries, ws)
      | None \<Rightarrow> dedupe rest (sitemapEntries @ [entry], ws))"

section \<open>The serializer\<close>

definition newline :: string where
  "newline = [CHR 0x0A]"

definition tab :: string where
  "tab = [CHR 0x09]"

text \<open>\<^verbatim>\<open>String.prototype.trim\<close>, on the white space of ASCII.\<close>

definition is_whitespace :: "char \<Rightarrow> bool" where
  "is_whitespace c = (c \<in> set [CHR 0x09, CHR 0x0A, CHR 0x0B, CHR 0x0C, CHR 0x0D, CHR 0x20])"

definition trim :: "string \<Rightarrow> string" where
  "trim s = rev (dropWhile is_whitespace (rev (dropWhile is_whitespace s)))"

text \<open>
  A number inside a template literal. Only a priority is printed, and a parsed priority is
  one of the eleven literals of the schema; the text is empty for any other number.
\<close>

definition number_toString :: "rat \<Rightarrow> string" where
  "number_toString r =
     (if r = 0 then ''0'' else if r = 1/10 then ''0.1'' else if r = 2/10 then ''0.2''
      else if r = 3/10 then ''0.3'' else if r = 4/10 then ''0.4'' else if r = 5/10 then ''0.5''
      else if r = 6/10 then ''0.6'' else if r = 7/10 then ''0.7'' else if r = 8/10 then ''0.8''
      else if r = 9/10 then ''0.9'' else if r = 1 then ''1'' else [])"

text \<open>
  The three conditional elements of \<^verbatim>\<open>getEntry\<close>. Each tests the truthiness of the field:
  a Date is truthy, a string is truthy unless empty, a number is truthy unless zero.
\<close>

definition lastmod_element :: "SitemapEntry \<Rightarrow> string" where
  "lastmod_element e =
     (case lastmod e of Defined d \<Rightarrow> ''<lastmod>'' @ d @ ''</lastmod>'' | _ \<Rightarrow> [])"

definition changefreq_element :: "SitemapEntry \<Rightarrow> string" where
  "changefreq_element e =
     (case changefreq e of
        Defined c \<Rightarrow> if c \<noteq> [] then ''<changefreq>'' @ c @ ''</changefreq>'' else []
      | _ \<Rightarrow> [])"

definition priority_element :: "SitemapEntry \<Rightarrow> string" where
  "priority_element e =
     (case priority e of
        Defined p \<Rightarrow> if p \<noteq> 0 then ''<priority>'' @ number_toString p @ ''</priority>'' else []
      | _ \<Rightarrow> [])"

definition getEntry :: "string \<Rightarrow> SitemapEntry \<Rightarrow> string" where
  "getEntry domainUrl e =
     trim (newline
       @ ''<url>'' @ newline
       @ tab @ ''<loc>'' @ domainUrl @ route e @ ''</loc>'' @ newline
       @ tab @ lastmod_element e @ newline
       @ tab @ changefreq_element e @ newline
       @ tab @ priority_element e @ newline
       @ ''</url>'' @ newline
       @ tab)"

definition sitemap_document :: "string \<Rightarrow> SitemapEntry list \<Rightarrow> string" where
  \<open>sitemap_document domainUrl sitemapEntries =
     trim (newline
       @ ''<?xml version="1.0" encoding="UTF-8"?>'' @ newline
       @ ''<urlset'' @ newline
       @ tab @ ''xmlns="http://www.sitemaps.org/schemas/sitemap/0.9"'' @ newline
       @ tab @ ''xmlns:xsi="http://www.w3.org/2001/XMLSchema-instance"'' @ newline
       @ tab @ ''xsi:schemaLocation="http://www.sitemaps.org/schemas/sitemap/0.9 http://www.sitemaps.org/schemas/sitemap/0.9/sitemap.xsd"'' @ newline
       @ ''>'' @ newline
       @ tab @ concat (map (getEntry domainUrl) sitemapEntries) @ newline
       @ ''</urlset>'' @ newline
       @ tab)\<close>

text \<open>
  \<^verbatim>\<open>getSitemapXml\<close>. The helper \<^verbatim>\<open>getDomainUrl\<close> of \<^verbatim>\<open>misc.server.ts\<close> is a parameter: it
  maps the request to the origin.
\<close>

definition getSitemapXml ::
  "('req \<Rightarrow> string) \<Rightarrow> 'req \<Rightarrow> 'req RemixContext \<Rightarrow> string outcome" where
  "getSitemapXml getDomainUrl request remixContext =
     (let domainUrl = getDomainUrl request in
      case rawSitemapEntries remixContext request of
        Diverges \<Rightarrow> Diverges
      | Throws e \<Rightarrow> Throws e
      | Returns entries ws \<Rightarrow>
          (case dedupe entries ([], []) of
             (sitemapEntries, ws') \<Rightarrow> Returns (sitemap_document domainUrl sitemapEntries) (ws @ ws')))"

section \<open>Notions of the specification\<close>

text \<open>Strings concatenated with \<^verbatim>\<open>/\<close> between them.\<close>

fun join_slash :: "string list \<Rightarrow> string" where
  "join_slash [] = []"
| "join_slash [x] = x"
| "join_slash (x # y # ys) = x @ ''/'' @ join_slash (y # ys)"

text \<open>
  The ancestors of a route, nearest first, as the manifest gives them from a parent
  identifier on: \<open>ancestor_chain\<close> holds of any initial part of them, \<open>ancestors_to_root\<close>
  of all of them, up to a route without parent in the manifest. No such list exists when
  the parents form a cycle.
\<close>

fun ancestor_chain ::
  "'req RemixContext \<Rightarrow> string option \<Rightarrow> (string \<times> manifest_entry) list \<Rightarrow> bool" where
  "ancestor_chain ctx pid [] = True"
| "ancestor_chain ctx pid (a # ps) =
     (parent_of ctx pid = Some a \<and> ancestor_chain ctx (parentId (snd a)) ps)"

fun ancestors_to_root ::
  "'req RemixContext \<Rightarrow> string option \<Rightarrow> (string \<times> manifest_entry) list \<Rightarrow> bool" where
  "ancestors_to_root ctx pid [] = (parent_of ctx pid = None)"
| "ancestors_to_root ctx pid (a # ps) =
     (parent_of ctx pid = Some a \<and> ancestors_to_root ctx (parentId (snd a)) ps)"

text \<open>
  An ancestor has a module; an ancestor has a module that has not opted out.
\<close>

definition has_module :: "'req RemixContext \<Rightarrow> string \<times> manifest_entry \<Rightarrow> bool" where
  "has_module ctx a = (case map_of (routeModules ctx) (fst a) of None \<Rightarrow> False | Some m \<Rightarrow> True)"

definition takes_part :: "'req RemixContext \<Rightarrow> string \<times> manifest_entry \<Rightarrow> bool" where
  "takes_part ctx a =
     (case map_of (routeModules ctx) (fst a) of None \<Rightarrow> False | Some m \<Rightarrow> \<not> opted_out m)"

text \<open>
  The path segments from root to leaf, each ancestor's with one trailing slash removed
  (empty for an ancestor without path), and their concatenation.
\<close>

definition path_segments :: "(string \<times> manifest_entry) list \<Rightarrow> string \<Rightarrow> string list" where
  "path_segments ps leaf = map (\<lambda>a. parentPath (snd a)) (rev ps) @ [leaf]"

definition ancestor_path :: "(string \<times> manifest_entry) list \<Rightarrow> string \<Rightarrow> string" where
  "ancestor_path ps leaf = join_slash (path_segments ps leaf)"

text \<open>The resolver produced no entry: it returned \<^verbatim>\<open>null\<close> or threw a TypeError.\<close>

definition null_or_TypeError :: "raw outcome \<Rightarrow> bool" where
  "null_or_TypeError r = (r = Returns RNull [] \<or> r = Throws TypeError)"

text \<open>The root of a route tree has no parent.\<close>

definition root_has_no_parent :: "'req RemixContext \<Rightarrow> bool" where
  "root_has_no_parent ctx =
     (case manifest_routes ctx ''root'' of
        None \<Rightarrow> True
      | Some manifestEntry \<Rightarrow> parent_of ctx (parentId manifestEntry) = None)"

text \<open>A module declares a custom entry function when its handle holds a function.\<close>

definition declares_entry_function :: "'req route_module \<Rightarrow> bool" where
  "declares_entry_function m =
     (case handle m of HandleObject (GseFunction f) \<Rightarrow> True | _ \<Rightarrow> False)"

text \<open>What a call returned, and the warnings it wrote.\<close>

definition returns :: "'a outcome \<Rightarrow> bool" where
  "returns r = (case r of Returns v ws \<Rightarrow> True | _ \<Rightarrow> False)"

definition returned_entries :: "SitemapEntry list option outcome \<Rightarrow> SitemapEntry list" where
  "returned_entries r = (case r of Returns (Some es) ws \<Rightarrow> es | _ \<Rightarrow> [])"

definition written_warnings :: "'a outcome \<Rightarrow> warning list" where
  "written_warnings r = (case r of Returns v ws \<Rightarrow> ws | _ \<Rightarrow> [])"

text \<open>The value an entry function returned does not pass the schema.\<close>

definition fails_validation :: "raw \<Rightarrow> bool" where
  "fails_validation rawEntries =
     (rawEntries \<noteq> RNull \<and> SitemapEntriesSchema_safeParse (rawEntryArray rawEntries) = None)"

text \<open>The entries of the routes of a list, in order.\<close>

definition entries_of_routes ::
  "'req RemixContext \<Rightarrow> 'req \<Rightarrow> (string \<times> 'req route_module) list \<Rightarrow> SitemapEntry list" where
  "entries_of_routes ctx request rs =
     concat (map (\<lambda>r. returned_entries (collect_route ctx request r)) rs)"

section \<open>A route tree to evaluate on\<close>

text \<open>
  A route tree of the usual shape: the root, a section with a static and a dynamic child, a
  pathless layout with its index route, and a section that opted out, with descendants.
\<close>

definition plain_module :: "unit route_module" where
  "plain_module = \<lparr> has_default = True, handle = HandleUndefined \<rparr>"

definition opt_out_module :: "unit route_module" where
  "opt_out_module = \<lparr> has_default = True, handle = HandleObject GseNull \<rparr>"

definition root_entry :: manifest_entry where
  "root_entry = \<lparr> path = Some [], index = False, parentId = None \<rparr>"

definition blog_entry :: manifest_entry where
  "blog_entry = \<lparr> path = Some ''blog'', index = False, parentId = Some ''root'' \<rparr>"

definition posts_entry :: manifest_entry where
  "posts_entry = \<lparr> path = Some ''posts/'', index = False, parentId = Some ''routes/blog'' \<rparr>"

definition slug_entry :: manifest_entry where
  "slug_entry = \<lparr> path = Some '':slug'', index = False, parentId = Some ''routes/blog'' \<rparr>"

definition layout_entry :: manifest_entry where
  "layout_entry = \<lparr> path = None, index = False, parentId = Some ''root'' \<rparr>"

definition layout_index_entry :: manifest_entry where
  "layout_index_entry = \<lparr> path = None, index = True, parentId = Some ''routes/_layout'' \<rparr>"

definition admin_entry :: manifest_entry where
  "admin_entry = \<lparr> path = Some ''admin'', index = False, parentId = Some ''root'' \<rparr>"

definition users_entry :: manifest_entry where
  "users_entry = \<lparr> path = Some ''users'', index = False, parentId = Some ''routes/admin'' \<rparr>"

definition new_user_entry :: manifest_entry where
  "new_user_entry = \<lparr> path = Some ''new'', index = False, parentId = Some ''routes/admin.users'' \<rparr>"

definition example_routes :: "(string \<times> manifest_entry) list" where
  "example_routes =
     [(''root'', root_entry),
      (''routes/blog'', blog_entry),
      (''routes/blog.posts'', posts_entry),
      (''routes/blog.$slug'', slug_entry),
      (''routes/_layout'', layout_entry),
      (''routes/_layout._index'', layout_index_entry),
      (''routes/admin'', admin_entry),
      (''routes/admin.users'', users_entry),
      (''routes/admin.users.new'', new_user_entry)]"

definition example_context :: "unit RemixContext" where
  "example_context =
     \<lparr> manifest_routes = map_of example_routes,
       routeModules =
         [(''root'', plain_module),
          (''routes/blog'', plain_module),
          (''routes/blog.posts'', plain_module),
          (''routes/blog.$slug'', plain_module),
          (''routes/_layout'', plain_module),
          (''routes/_layout._index'', plain_module),
          (''routes/admin'', opt_out_module),
          (''routes/admin.users'', plain_module),
          (''routes/admin.users.new'', plain_module)] \<rparr>"

text \<open>Modules with an entry function of their own, and a resource route.\<close>

definition function_module :: "(unit GetSitemapArgs \<Rightarrow> js_error + raw) \<Rightarrow> unit route_module" where
  "function_module f = \<lparr> has_default = True, handle = HandleObject (GseFunction f) \<rparr>"

definition resource_module :: "unit route_module" where
  "resource_module = \<lparr> has_default = False, handle = HandleUndefined \<rparr>"

definition blog_function :: "unit GetSitemapArgs \<Rightarrow> js_error + raw" where
  "blog_function args =
     Inr (RArray
       [RObject [(''route'', RString ''/blog''),
                 (''lastmod'', RDate (Some ''2024-01-01T00:00:00.000Z'')),
                 (''changefreq'', RString ''weekly''),
                 (''priority'', RNumber (8/10))],
        RObject [(''route'', RString ''/blog/first'')]])"

definition bad_priority_function :: "unit GetSitemapArgs \<Rightarrow> js_error + raw" where
  "bad_priority_function args =
     Inr (RObject [(''route'', RString ''/bad''), (''priority'', RNumber (3/2))])"

definition bad_entry :: manifest_entry where
  "bad_entry = \<lparr> path = Some ''bad'', index = False, parentId = Some ''root'' \<rparr>"

definition sitemap_entry :: manifest_entry where
  "sitemap_entry = \<lparr> path = Some ''sitemap.xml'', index = False, parentId = Some ''root'' \<rparr>"

definition collector_before :: "(string \<times> unit route_module) list" where
  "collector_before =
     [(''root'', plain_module),
      (''routes/blog'', function_module blog_function),
      (''routes/blog.posts'', plain_module)]"

definition collector_after :: "(string \<times> unit route_module) list" where
  "collector_after = [(''routes/sitemap[.]xml'', resource_module)]"

definition collector_context :: "unit RemixContext" where
  "collector_context =
     \<lparr> manifest_routes = map_of
         [(''root'', root_entry),
          (''routes/blog'', blog_entry),
          (''routes/blog.posts'', posts_entry),
          (''routes/bad'', bad_entry),
          (''routes/sitemap[.]xml'', sitemap_entry)],
       routeModules =
         collector_before
         @ (''routes/bad'', function_module bad_priority_function) # collector_after \<rparr>"

text \<open>An entry function that returns an array with a \<^verbatim>\<open>null\<close> in it.\<close>

definition nulls_function :: "unit GetSitemapArgs \<Rightarrow> js_error + raw" where
  "nulls_function args = Inr (RArray [RObject [(''route'', RString ''/a'')], RNull])"

definition a_entry :: manifest_entry where
  "a_entry = \<lparr> path = Some ''a'', index = False, parentId = Some ''root'' \<rparr>"

definition nulls_context :: "unit RemixContext" where
  "nulls_context =
     \<lparr> manifest_routes = map_of [(''root'', root_entry), (''routes/a'', a_entry)],
       routeModules =
         [(''root'', plain_module), (''routes/a'', function_module nulls_function)] \<rparr>"

text \<open>
  Two entry functions that return the same route, the first with \<^verbatim>\<open>lastmod: undefined\<close> and
  no priority, the second with a priority.
\<close>

definition undefined_lastmod_function :: "unit GetSitemapArgs \<Rightarrow> js_error + raw" where
  "undefined_lastmod_function args =
     Inr (RObject [(''route'', RString ''/a''), (''lastmod'', RUndefined)])"

definition priority_function :: "unit GetSitemapArgs \<Rightarrow> js_error + raw" where
  "priority_function args =
     Inr (RObject [(''route'', RString ''/a''), (''priority'', RNumber (5/10))])"

definition conflict_context :: "unit RemixContext" where
  "conflict_context =
     \<lparr> manifest_routes = map_of
         [(''root'', root_entry), (''routes/a'', a_entry), (''routes/b'', a_entry)],
       routeModules =
         [(''root'', plain_module),
          (''routes/a'', function_module undefined_lastmod_function),
          (''routes/b'', function_module priority_function)] \<rparr>"

definition undefined_lastmod_entry :: SitemapEntry where
  "undefined_lastmod_entry =
     \<lparr> route = ''/a'', lastmod = Undefined, changefreq = Absent, priority = Absent \<rparr>"

definition priority_entry :: SitemapEntry where
  "priority_entry =
     \<lparr> route = ''/a'', lastmod = Absent, changefreq = Absent, priority = Defined (5/10) \<rparr>"

text \<open>Entries to serialize and to compare.\<close>

definition zero_priority_entry :: SitemapEntry where
  "zero_priority_entry =
     \<lparr> route = ''/a'', lastmod = Absent, changefreq = Absent, priority = Defined 0 \<rparr>"

definition january_entry :: SitemapEntry where
  "january_entry =
     \<lparr> route = ''/blog'', lastmod = Defined ''2024-01-01T00:00:00.000Z'',
       changefreq = Defined ''weekly'', priority = Defined (8/10) \<rparr>"

definition june_entry :: SitemapEntry where
  "june_entry =
     \<lparr> route = ''/blog'', lastmod = Defined ''2024-06-01T00:00:00.000Z'',
       changefreq = Defined ''weekly'', priority = Defined (8/10) \<rparr>"

section \<open>The default resolver: properties\<close>

lemma join_slash_snoc: "join_slash (xs @ [leaf]) = concat (map (\<lambda>x. x @ ''/'') xs) @ leaf"
  by (induction xs rule: join_slash.induct) auto

lemma ancestor_path_Cons:
  "ancestor_path (a # ps) acc = ancestor_path ps (parentPath (snd a) @ ''/'' @ acc)"
  using join_slash_snoc [of "map (\<lambda>a. parentPath (snd a)) (rev ps) @ [parentPath (snd a)]" acc]
  by (simp add: ancestor_path_def path_segments_def join_slash_snoc)

lemma walk_parents_end:
  "parent_of ctx pid = None \<Longrightarrow> walk_parents ctx pid acc = Some (Inr (Some acc))"
  by (subst walk_parents.simps) simp

lemma walk_parents_no_module:
  "parent_of ctx pid = Some a \<Longrightarrow> map_of (routeModules ctx) (fst a) = None \<Longrightarrow>
   walk_parents ctx pid acc = Some (Inl TypeError)"
  by (subst walk_parents.simps) (auto split: prod.splits)

lemma walk_parents_opt_out:
  "parent_of ctx pid = Some a \<Longrightarrow> map_of (routeModules ctx) (fst a) = Some m \<Longrightarrow> opted_out m \<Longrightarrow>
   walk_parents ctx pid acc = Some (Inr None)"
  by (subst walk_parents.simps) (auto split: prod.splits)

lemma walk_parents_step:
  "parent_of ctx pid = Some a \<Longrightarrow> map_of (routeModules ctx) (fst a) = Some m \<Longrightarrow> \<not> opted_out m \<Longrightarrow>
   walk_parents ctx pid acc = walk_parents ctx (parentId (snd a)) (parentPath (snd a) @ ''/'' @ acc)"
  by (subst walk_parents.simps) (auto split: prod.splits)


lemma walk_parents_below_opt_out:
  "ancestor_chain ctx pid (ps @ [a]) \<Longrightarrow>
   map_of (routeModules ctx) (fst a) = Some m \<Longrightarrow> opted_out m \<Longrightarrow>
   (list_all (has_module ctx) ps \<longrightarrow> walk_parents ctx pid acc = Some (Inr None)) \<and>
   (walk_parents ctx pid acc = Some (Inr None) \<or> walk_parents ctx pid acc = Some (Inl TypeError))"
proof (induction ps arbitrary: pid acc)
  case Nil
  then show ?case by (simp add: walk_parents_opt_out)
next
  case (Cons b ps)
  from Cons.prems have par: "parent_of ctx pid = Some b"
    and rest: "ancestor_chain ctx (parentId (snd b)) (ps @ [a])" by simp_all
  show ?case
  proof (cases "map_of (routeModules ctx) (fst b)")
    case None
    then show ?thesis using walk_parents_no_module [OF par] by (simp add: has_module_def)
  next
    case (Some mb)
    show ?thesis
    proof (cases "opted_out mb")
      case True
      then show ?thesis using walk_parents_opt_out [OF par Some] by simp
    next
      case False
      show ?thesis
        using walk_parents_step [OF par Some False]
          Cons.IH [OF rest Cons.prems(2) Cons.prems(3)] by simp
    qed
  qed
qed

lemma walk_parents_returns:
  "ancestors_to_root ctx pid ps \<Longrightarrow>
   (list_all (has_module ctx) ps \<longrightarrow>
      walk_parents ctx pid acc = Some (Inr None) \<or>
      walk_parents ctx pid acc = Some (Inr (Some (ancestor_path ps acc)))) \<and>
   (walk_parents ctx pid acc = Some (Inr None) \<or>
    walk_parents ctx pid acc = Some (Inl TypeError) \<or>
    walk_parents ctx pid acc = Some (Inr (Some (ancestor_path ps acc))))"
proof (induction ps arbitrary: pid acc)
  case Nil
  then show ?case
    by (simp add: walk_parents_end ancestor_path_def path_segments_def)
next
  case (Cons b ps)
  from Cons.prems have par: "parent_of ctx pid = Some b"
    and rest: "ancestors_to_root ctx (parentId (snd b)) ps" by simp_all
  show ?case
  proof (cases "map_of (routeModules ctx) (fst b)")
    case None
    then show ?thesis using walk_parents_no_module [OF par] by (simp add: has_module_def)
  next
    case (Some mb)
    show ?thesis
    proof (cases "opted_out mb")
      case True
      then show ?thesis using walk_parents_opt_out [OF par Some] by simp
    next
      case False
      show ?thesis
        using walk_parents_step [OF par Some False] Cons.IH [OF rest]
        by (simp add: ancestor_path_Cons)
    qed
  qed
qed




lemma default_resolver_root_null:
  "defaultGetSitemapHandle ctx ''root'' = Returns v ws \<Longrightarrow> v = RNull"
  by (auto simp: defaultGetSitemapHandle_def split: option.splits sum.splits if_splits)

lemmas example_defs =
  example_context_def example_routes_def plain_module_def opt_out_module_def root_entry_def
  blog_entry_def posts_entry_def slug_entry_def layout_entry_def layout_index_entry_def
  admin_entry_def users_entry_def new_user_entry_def

lemmas resolver_defs =
  parent_of_def own_segment_def parentPath_def removeTrailingSlash_def endsWith_def opted_out_def
  has_module_def takes_part_def ancestor_path_def path_segments_def

section \<open>Claims about the default resolver\<close>




text \<open>
  Claim C4. If the module of an ancestor declares its entry function as \<^verbatim>\<open>null\<close>, the
  default resolver produces no entry for the route: it returns \<^verbatim>\<open>null\<close> when every ancestor
  below that one has a module, and otherwise it either returns \<^verbatim>\<open>null\<close> or throws the
  TypeError of reading the handle of a missing module.
\<close>

theorem default_resolver_opt_out_inherited:
  assumes "manifest_routes ctx rid = Some manifestEntry"
    and "ancestor_chain ctx (parentId manifestEntry) (ps @ [a])"
    and "map_of (routeModules ctx) (fst a) = Some m"
    and "opted_out m"
  shows "(list_all (has_module ctx) ps \<longrightarrow> defaultGetSitemapHandle ctx rid = Returns RNull [])
         \<and> null_or_TypeError (defaultGetSitemapHandle ctx rid)"
proof (cases "own_segment manifestEntry")
  case None
  then show ?thesis using assms(1) by (simp add: defaultGetSitemapHandle_def null_or_TypeError_def)
next
  case (Some seg)
  show ?thesis
    using assms(1) Some walk_parents_below_opt_out [OF assms(2) assms(3) assms(4), of seg]
    by (auto simp: defaultGetSitemapHandle_def null_or_TypeError_def)
qed

theorem default_resolver_opt_out_inherited_witness:
  "defaultGetSitemapHandle example_context ''routes/admin.users.new'' = Returns RNull []"
proof -
  have h1: "manifest_routes example_context ''routes/admin.users.new'' = Some new_user_entry"
    by (simp add: example_defs)
  have h2: "ancestor_chain example_context (parentId new_user_entry)
              ([(''routes/admin.users'', users_entry)] @ [(''routes/admin'', admin_entry)])"
    by (simp add: example_defs resolver_defs)
  have h3: "map_of (routeModules example_context) (fst (''routes/admin'', admin_entry))
              = Some opt_out_module"
    by (simp add: example_defs)
  have h4: "opted_out opt_out_module"
    by (simp add: example_defs resolver_defs)
  have h5: "list_all (has_module example_context) [(''routes/admin.users'', users_entry)]"
    by (simp add: example_defs resolver_defs)
  show ?thesis
    using default_resolver_opt_out_inherited [OF h1 h2 h3 h4] h5 by simp
qed

text \<open>
  Claim C7. If the concatenated path of a route contains the marker \<^verbatim>\<open>:\<close>, the default
  resolver produces no entry: it returns \<^verbatim>\<open>null\<close> when every ancestor has a module, and
  otherwise it either returns \<^verbatim>\<open>null\<close> or throws the TypeError of reading the handle of a
  missing module.
\<close>

theorem default_resolver_dynamic_route:
  assumes "manifest_routes ctx rid = Some manifestEntry"
    and "own_segment manifestEntry = Some leaf"
    and "ancestors_to_root ctx (parentId manifestEntry) ps"
    and "CHR '':'' \<in> set (ancestor_path ps leaf)"
  shows "(list_all (has_module ctx) ps \<longrightarrow> defaultGetSitemapHandle ctx rid = Returns RNull [])
         \<and> null_or_TypeError (defaultGetSitemapHandle ctx rid)"
  using assms(1) assms(2) assms(4) walk_parents_returns [OF assms(3), of leaf]
  by (auto simp: defaultGetSitemapHandle_def null_or_TypeError_def)

theorem default_resolver_dynamic_route_witness:
  "defaultGetSitemapHandle example_context ''routes/blog.$slug'' = Returns RNull []"
proof -
  let ?ps = "[(''routes/blog'', blog_entry), (''root'', root_entry)]"
  have h1: "manifest_routes example_context ''routes/blog.$slug'' = Some slug_entry"
    by (simp add: example_defs)
  have h2: "own_segment slug_entry = Some '':slug''"
    by (simp add: example_defs resolver_defs)
  have h3: "ancestors_to_root example_context (parentId slug_entry) ?ps"
    by (simp add: example_defs resolver_defs)
  have h4: "CHR '':'' \<in> set (ancestor_path ?ps '':slug'')"
    by (simp add: example_defs resolver_defs)
  have h5: "list_all (has_module example_context) ?ps"
    by (simp add: example_defs resolver_defs)
  show ?thesis
    using default_resolver_dynamic_route [OF h1 h2 h3 h4] h5 by simp
qed

text \<open>
  Claim C8. The identifier \<^verbatim>\<open>root\<close> contributes no entry: the collector returns \<^verbatim>\<open>null\<close>
  for the module named \<^verbatim>\<open>root\<close> whatever the module is, the default resolver never returns
  an entry for \<^verbatim>\<open>root\<close>, and it does return \<^verbatim>\<open>null\<close> when the root has no parent.
\<close>

theorem root_never_listed:
  "collect_route ctx request (''root'', m) = Returns None []
   \<and> (\<forall>v ws. defaultGetSitemapHandle ctx ''root'' = Returns v ws \<longrightarrow> v = RNull)
   \<and> (root_has_no_parent ctx \<longrightarrow> (\<exists>ws. defaultGetSitemapHandle ctx ''root'' = Returns RNull ws))"
proof -
  have a: "collect_route ctx request (''root'', m) = Returns None []"
    by (simp add: collect_route_def)
  have b: "\<forall>v ws. defaultGetSitemapHandle ctx ''root'' = Returns v ws \<longrightarrow> v = RNull"
    using default_resolver_root_null by blast
  have c: "root_has_no_parent ctx \<longrightarrow> (\<exists>ws. defaultGetSitemapHandle ctx ''root'' = Returns RNull ws)"
    by (auto simp: root_has_no_parent_def defaultGetSitemapHandle_def walk_parents_end
        split: option.splits)
  from a b c show ?thesis by blast
qed

theorem root_never_listed_witness:
  "collect_route example_context () (''root'', plain_module) = Returns None []
   \<and> defaultGetSitemapHandle example_context ''root'' = Returns RNull []"
proof -
  have h: "root_has_no_parent example_context"
    by (simp add: root_has_no_parent_def example_defs resolver_defs)
  have e: "defaultGetSitemapHandle example_context ''root'' = Returns RNull []"
    by (simp add: defaultGetSitemapHandle_def example_defs resolver_defs)
  show ?thesis
    using root_never_listed [of example_context "()" plain_module] h e by simp
qed

section \<open>The collector and the deduplicator: properties\<close>

lemma those_map_None:
  "x \<in> set xs \<Longrightarrow> f x = None \<Longrightarrow> those (map f xs) = None"
  by (induction xs) (auto split: option.splits)

lemma written_warnings_Returns: "written_warnings (Returns v ws) = ws"
  by (simp add: written_warnings_def)

lemma returned_entries_Returns:
  "returned_entries (Returns v ws) = (case v of None \<Rightarrow> [] | Some es \<Rightarrow> es)"
  by (simp add: returned_entries_def split: option.splits)

lemma returns_Returns: "returns (Returns v ws)"
  by (simp add: returns_def)

lemma promise_all_returns:
  "list_all returns rs \<Longrightarrow>
   \<exists>vs. promise_all rs = Returns vs (concat (map written_warnings rs))
        \<and> flatten_results vs = concat (map returned_entries rs)"
proof (induction rs)
  case Nil
  then show ?case by (simp add: flatten_results_def)
next
  case (Cons r rs)
  from Cons.prems obtain v ws where r: "r = Returns v ws"
    by (cases r) (simp_all add: returns_def)
  from Cons obtain vs where vs: "promise_all rs = Returns vs (concat (map written_warnings rs))"
      "flatten_results vs = concat (map returned_entries rs)"
    by auto
  show ?case
    using r vs
    by (simp add: flatten_results_def written_warnings_Returns returned_entries_Returns)
qed

lemma rawSitemapEntries_returns:
  assumes "list_all (\<lambda>r. returns (collect_route ctx request r)) (routeModules ctx)"
  shows "rawSitemapEntries ctx request =
           Returns (entries_of_routes ctx request (routeModules ctx))
             (concat (map (\<lambda>r. written_warnings (collect_route ctx request r)) (routeModules ctx)))"
proof -
  have "list_all returns (map (collect_route ctx request) (routeModules ctx))"
    using assms by (simp add: list_all_iff)
  from promise_all_returns [OF this] show ?thesis
    by (auto simp: rawSitemapEntries_def entries_of_routes_def comp_def)
qed

lemma dedupe_routes:
  "route ` set (fst (dedupe xs (acc, ws))) = route ` set acc \<union> route ` set xs"
proof (induction xs arbitrary: acc ws)
  case Nil
  then show ?case by simp
next
  case (Cons entry rest)
  show ?case
  proof (cases "find (\<lambda>e. route e = route entry) acc")
    case None
    then show ?thesis using Cons.IH [of "acc @ [entry]" ws] by auto
  next
    case (Some existing)
    then have "route entry \<in> route ` set acc"
      by (auto simp: find_Some_iff image_iff) (metis nth_mem)
    then show ?thesis
      using Some Cons.IH [of acc ws] Cons.IH [of acc "ws @ [DuplicateRoute (route entry) entry existing]"]
      by auto
  qed
qed

lemma dedupe_keeps:
  "set acc \<subseteq> set (fst (dedupe xs (acc, ws)))"
proof (induction xs arbitrary: acc ws)
  case Nil
  then show ?case by simp
next
  case (Cons entry rest)
  show ?case
  proof (cases "find (\<lambda>e. route e = route entry) acc")
    case None
    then show ?thesis using Cons.IH [of "acc @ [entry]" ws] by auto
  next
    case (Some existing)
    then show ?thesis
      using Cons.IH [of acc ws] Cons.IH [of acc "ws @ [DuplicateRoute (route entry) entry existing]"]
      by auto
  qed
qed

lemma dedupe_first_seen:
  "find (\<lambda>x. route x = r) acc = None \<Longrightarrow> find (\<lambda>x. route x = r) xs = Some e' \<Longrightarrow>
   e' \<in> set (fst (dedupe xs (acc, ws)))"
proof (induction xs arbitrary: acc ws)
  case Nil
  then show ?case by simp
next
  case (Cons entry rest)
  show ?case
  proof (cases "route entry = r")
    case True
    with Cons.prems have e: "e' = entry" and none: "find (\<lambda>e. route e = route entry) acc = None"
      by simp_all
    have "entry \<in> set (fst (dedupe rest (acc @ [entry], ws)))"
      using dedupe_keeps [of "acc @ [entry]" rest ws] by auto
    then show ?thesis using e none by simp
  next
    case False
    with Cons.prems have rest: "find (\<lambda>x. route x = r) rest = Some e'" by simp
    have ext: "find (\<lambda>x. route x = r) (acc @ [entry]) = None"
      using Cons.prems(1) False by (auto simp: find_None_iff)
    show ?thesis
    proof (cases "find (\<lambda>e. route e = route entry) acc")
      case None
      then show ?thesis using Cons.IH [OF ext rest, of ws] by simp
    next
      case (Some existing)
      then show ?thesis
        using Cons.IH [OF Cons.prems(1) rest, of ws]
          Cons.IH [OF Cons.prems(1) rest, of "ws @ [DuplicateRoute (route entry) entry existing]"]
        by simp
    qed
  qed
qed

lemma find_first_with_route:
  assumes "e \<in> set xs"
  shows "\<exists>e'. find (\<lambda>x. route x = route e) xs = Some e' \<and> route e' = route e"
proof (cases "find (\<lambda>x. route x = route e) xs")
  case None
  then show ?thesis using assms by (auto simp: find_None_iff)
next
  case (Some e')
  then show ?thesis by (auto simp: find_Some_iff)
qed

lemma collect_route_invalid:
  assumes "rid \<noteq> ''root''"
    and "handle m = HandleObject (GseFunction f)"
    and "f \<lparr> arg_id = rid, arg_request = request \<rparr> = Inr rawEntries"
    and "fails_validation rawEntries"
  shows "collect_route ctx request (rid, m) = Returns None [InvalidSitemapEntries rid]"
  using assms
  by (simp add: collect_route_def HandleSchema_safeParse_def call_entry_function_def
      validate_entries_def fails_validation_def is_null_def falsy_def)

lemmas collector_example_defs =
  collector_context_def collector_before_def collector_after_def function_module_def resource_module_def blog_function_def
  bad_priority_function_def bad_entry_def sitemap_entry_def plain_module_def root_entry_def
  blog_entry_def posts_entry_def conflict_context_def undefined_lastmod_function_def
  priority_function_def a_entry_def nulls_function_def nulls_context_def

lemmas schema_defs =
  SitemapEntriesSchema_safeParse_def SitemapEntrySchema_safeParse_def get_prop_def
  parse_lastmod_def parse_changefreq_def parse_priority_def parsed_prop_def
  changefreq_enum_def priority_literals_def rawEntryArray_def

lemmas collector_defs =
  collect_route_def HandleSchema_safeParse_def call_entry_function_def validate_entries_def
  is_null_def falsy_def

lemmas isEqual_defs =
  isEqual_def isEqual_Date_def Object_keys_def Object_keys_Date_def get_Date_def get_field_def
  typeof_object_def

lemmas serializer_defs =
  getEntry_def lastmod_element_def changefreq_element_def priority_element_def
  number_toString_def trim_def is_whitespace_def newline_def tab_def

lemma isEqual_refl: "isEqual e e"
  by (simp add: isEqual_defs list_all_iff)

lemma dedupe_pair:
  "route e2 = route e1 \<Longrightarrow>
   dedupe [e1, e2] ([], []) =
     (if isEqual e1 e2 then ([e1], []) else ([e1], [DuplicateRoute (route e2) e2 e1]))"
  by simp

lemma dedupe_identical: "dedupe [e, e] ([], []) = ([e], [])"
  by (simp add: isEqual_refl)

lemma isEqual_priority_differs:
  assumes "priority e1 \<noteq> Absent"
    and "get_field e1 ''priority'' \<noteq> get_field e2 ''priority''"
  shows "\<not> isEqual e1 e2"
proof -
  have "''priority'' \<in> set (Object_keys e1)"
    using assms(1) by (simp add: Object_keys_def)
  moreover have "\<not> typeof_object (get_field e1 ''priority'')"
    by (simp add: get_field_def typeof_object_def split: optional.splits)
  ultimately show ?thesis
    using assms(2) by (auto simp: isEqual_def Let_def list_all_iff)
qed

text \<open>
  The three shapes of a returned value that the validator accepts: \<^verbatim>\<open>null\<close>, a single
  entry, an array of entries.
\<close>

lemma validate_entries_null: "validate_entries rid RNull ws = Returns None ws"
  by (simp add: validate_entries_def)

lemma validate_entries_single:
  assumes "SitemapEntrySchema_safeParse v = Some e"
  shows "validate_entries rid v ws = Returns (Some [e]) ws"
proof -
  from assms obtain props where v: "v = RObject props"
    by (cases v) (simp_all add: SitemapEntrySchema_safeParse_def)
  show ?thesis
    using assms
    by (simp add: v validate_entries_def rawEntryArray_def SitemapEntriesSchema_safeParse_def)
qed

lemma validate_entries_array:
  assumes "those (map SitemapEntrySchema_safeParse xs) = Some es"
  shows "validate_entries rid (RArray xs) ws = Returns (Some es) ws"
  using assms
  by (simp add: validate_entries_def rawEntryArray_def SitemapEntriesSchema_safeParse_def)

section \<open>The serializer: the text of a block and of the document\<close>

lemma trim_template:
  assumes "\<not> is_whitespace a" and "\<not> is_whitespace b"
  shows "trim (newline @ a # xs @ b # newline @ tab) = a # xs @ [b]"
proof -
  have nl: "is_whitespace (CHR 0x0A)" and tb: "is_whitespace (CHR 0x09)"
    by (simp_all add: is_whitespace_def)
  have "dropWhile is_whitespace (newline @ a # xs @ b # newline @ tab) = a # xs @ b # newline @ tab"
    using assms(1) nl by (simp add: newline_def)
  moreover have "dropWhile is_whitespace (rev (a # xs @ b # newline @ tab)) = b # rev xs @ [a]"
    using assms(2) nl tb by (simp add: newline_def tab_def)
  ultimately show ?thesis
    by (simp add: trim_def)
qed

lemma getEntry_block:
  "getEntry domainUrl e =
     ''<url>'' @ newline
       @ tab @ ''<loc>'' @ domainUrl @ route e @ ''</loc>'' @ newline
       @ tab @ lastmod_element e @ newline
       @ tab @ changefreq_element e @ newline
       @ tab @ priority_element e @ newline
       @ ''</url>''"
proof -
  have a: "\<not> is_whitespace (CHR ''<'')" and b: "\<not> is_whitespace (CHR ''>'')"
    by (simp_all add: is_whitespace_def)
  show ?thesis
    using trim_template [OF a b, of "''url>'' @ newline
       @ tab @ ''<loc>'' @ domainUrl @ route e @ ''</loc>'' @ newline
       @ tab @ lastmod_element e @ newline
       @ tab @ changefreq_element e @ newline
       @ tab @ priority_element e @ newline
       @ ''</url''"]
    by (simp add: getEntry_def)
qed

lemma sitemap_document_text:
  \<open>sitemap_document domainUrl sitemapEntries =
     ''<?xml version="1.0" encoding="UTF-8"?>'' @ newline
       @ ''<urlset'' @ newline
       @ tab @ ''xmlns="http://www.sitemaps.org/schemas/sitemap/0.9"'' @ newline
       @ tab @ ''xmlns:xsi="http://www.w3.org/2001/XMLSchema-instance"'' @ newline
       @ tab @ ''xsi:schemaLocation="http://www.sitemaps.org/schemas/sitemap/0.9 http://www.sitemaps.org/schemas/sitemap/0.9/sitemap.xsd"'' @ newline
       @ ''>'' @ newline
       @ tab @ concat (map (getEntry domainUrl) sitemapEntries) @ newline
       @ ''</urlset>''\<close>
proof -
  have a: "\<not> is_whitespace (CHR ''<'')" and b: "\<not> is_whitespace (CHR ''>'')"
    by (simp_all add: is_whitespace_def)
  show ?thesis
    using trim_template [OF a b, of \<open>''?xml version="1.0" encoding="UTF-8"?>'' @ newline
       @ ''<urlset'' @ newline
       @ tab @ ''xmlns="http://www.sitemaps.org/schemas/sitemap/0.9"'' @ newline
       @ tab @ ''xmlns:xsi="http://www.w3.org/2001/XMLSchema-instance"'' @ newline
       @ tab @ ''xsi:schemaLocation="http://www.sitemaps.org/schemas/sitemap/0.9 http://www.sitemaps.org/schemas/sitemap/0.9/sitemap.xsd"'' @ newline
       @ ''>'' @ newline
       @ tab @ concat (map (getEntry domainUrl) sitemapEntries) @ newline
       @ ''</urlset''\<close>]
    by (simp add: sitemap_document_def)
qed

lemma getEntry_text:
  "getEntry domainUrl e =
     ''<url>'' @ [CHR 0x0A, CHR 0x09]
     @ ''<loc>'' @ domainUrl @ route e @ ''</loc>'' @ [CHR 0x0A, CHR 0x09]
     @ (case lastmod e of Defined d \<Rightarrow> ''<lastmod>'' @ d @ ''</lastmod>'' | _ \<Rightarrow> [])
     @ [CHR 0x0A, CHR 0x09]
     @ (case changefreq e of
          Defined c \<Rightarrow> if c = [] then [] else ''<changefreq>'' @ c @ ''</changefreq>''
        | _ \<Rightarrow> [])
     @ [CHR 0x0A, CHR 0x09]
     @ (case priority e of
          Defined p \<Rightarrow> if p = 0 then [] else ''<priority>'' @ number_toString p @ ''</priority>''
        | _ \<Rightarrow> [])
     @ [CHR 0x0A] @ ''</url>''"
  by (simp add: getEntry_block lastmod_element_def changefreq_element_def priority_element_def
      newline_def tab_def split: optional.splits)

lemma sitemap_document_contains:
  assumes "e \<in> set sitemapEntries"
  shows "\<exists>pre post. sitemap_document domainUrl sitemapEntries = pre @ getEntry domainUrl e @ post"
proof -
  from assms obtain xs ys where s: "sitemapEntries = xs @ e # ys"
    by (auto simp: in_set_conv_decomp)
  have "concat (map (getEntry domainUrl) sitemapEntries)
          = concat (map (getEntry domainUrl) xs) @ getEntry domainUrl e
            @ concat (map (getEntry domainUrl) ys)"
    by (simp add: s)
  then show ?thesis
    unfolding sitemap_document_text
    by (metis append.assoc)
qed

section \<open>Claims about the collector and the validator\<close>

text \<open>
  Claim C9. For a route module without a default export (a resource route) whose handle
  declares no entry function, the collector produces no entries: it returns \<^verbatim>\<open>null\<close> for
  that route, and writes no warning.
\<close>

theorem resource_route_without_entry_function:
  assumes "\<not> has_default m" and "\<not> declares_entry_function m"
  shows "collect_route ctx request (rid, m) = Returns None []"
  using assms
  by (auto simp: collect_route_def HandleSchema_safeParse_def declares_entry_function_def
      is_null_def falsy_def
      split: handle_value.splits getSitemapEntries_prop.splits)

theorem resource_route_without_entry_function_witness:
  "collect_route collector_context () (''routes/sitemap[.]xml'', resource_module) = Returns None []"
proof -
  have h1: "\<not> has_default resource_module"
    by (simp add: resource_module_def)
  have h2: "\<not> declares_entry_function resource_module"
    by (simp add: resource_module_def declares_entry_function_def)
  show ?thesis
    by (rule resource_route_without_entry_function [OF h1 h2])
qed

text \<open>
  Claim C3. Let the entry function of one route return a value that fails the schema, and
  let every other route return. Then the collector drops that route with a warning that
  names it; the raw entries are exactly those of the other routes, in order; the generation
  returns a document, with the warning among those written; and for every entry of another
  route, the document holds the \<^verbatim>\<open><url>\<close> block, written out below, of the first entry of
  the other routes that has the same route: its \<^verbatim>\<open><loc>\<close> with the origin and the route, and
  its \<^verbatim>\<open><lastmod>\<close>, \<^verbatim>\<open><changefreq>\<close> and \<^verbatim>\<open><priority>\<close> elements.
\<close>

theorem invalid_route_is_dropped_alone:
  assumes "routeModules ctx = before @ (rid, m) # after"
    and "rid \<noteq> ''root''"
    and "handle m = HandleObject (GseFunction f)"
    and "f \<lparr> arg_id = rid, arg_request = request \<rparr> = Inr rawEntries"
    and "fails_validation rawEntries"
    and "list_all (\<lambda>r. returns (collect_route ctx request r)) (before @ after)"
  shows "collect_route ctx request (rid, m) = Returns None [InvalidSitemapEntries rid]
     \<and> (\<exists>ws. rawSitemapEntries ctx request
                = Returns (entries_of_routes ctx request (before @ after)) ws
              \<and> InvalidSitemapEntries rid \<in> set ws)
     \<and> (\<exists>doc ws. getSitemapXml getDomainUrl request ctx = Returns doc ws
              \<and> InvalidSitemapEntries rid \<in> set ws
              \<and> doc = sitemap_document (getDomainUrl request)
                    (fst (dedupe (entries_of_routes ctx request (before @ after)) ([], [])))
              \<and> (\<forall>e \<in> set (entries_of_routes ctx request (before @ after)).
                    \<exists>e' pre post.
                      find (\<lambda>x. route x = route e) (entries_of_routes ctx request (before @ after))
                        = Some e'
                      \<and> route e' = route e
                      \<and> doc = pre
                          @ ''<url>'' @ [CHR 0x0A, CHR 0x09]
                          @ ''<loc>'' @ getDomainUrl request @ route e' @ ''</loc>''
                          @ [CHR 0x0A, CHR 0x09]
                          @ (case lastmod e' of
                               Defined d \<Rightarrow> ''<lastmod>'' @ d @ ''</lastmod>''
                             | _ \<Rightarrow> [])
                          @ [CHR 0x0A, CHR 0x09]
                          @ (case changefreq e' of
                               Defined c \<Rightarrow>
                                 if c = [] then [] else ''<changefreq>'' @ c @ ''</changefreq>''
                             | _ \<Rightarrow> [])
                          @ [CHR 0x0A, CHR 0x09]
                          @ (case priority e' of
                               Defined p \<Rightarrow>
                                 if p = 0 then []
                                 else ''<priority>'' @ number_toString p @ ''</priority>''
                             | _ \<Rightarrow> [])
                          @ [CHR 0x0A] @ ''</url>''
                          @ post))
     \<and> route ` set (entries_of_routes ctx request (before @ after))
         = route ` set (fst (dedupe (entries_of_routes ctx request (before @ after)) ([], [])))"
proof -
  define others where "others = entries_of_routes ctx request (before @ after)"
  define url where "url = getDomainUrl request"
  define doc where "doc = sitemap_document url (fst (dedupe others ([], [])))"
  have one: "collect_route ctx request (rid, m) = Returns None [InvalidSitemapEntries rid]"
    by (rule collect_route_invalid [OF assms(2) assms(3) assms(4) assms(5)])
  have all: "list_all (\<lambda>r. returns (collect_route ctx request r)) (routeModules ctx)"
    using assms(6) one by (simp add: assms(1) returns_Returns)
  have ents: "entries_of_routes ctx request (routeModules ctx) = others"
    using one by (simp add: others_def assms(1) entries_of_routes_def returned_entries_Returns)
  define ws where
    "ws = concat (map (\<lambda>r. written_warnings (collect_route ctx request r)) (routeModules ctx))"
  have mem: "InvalidSitemapEntries rid \<in> set ws"
    using one by (simp add: ws_def assms(1) written_warnings_Returns)
  have raw: "rawSitemapEntries ctx request = Returns others ws"
    using rawSitemapEntries_returns [OF all] ents by (simp add: ws_def)
  obtain accepted dws where dd: "dedupe others ([], []) = (accepted, dws)"
    by (cases "dedupe others ([], [])")
  have xml: "getSitemapXml getDomainUrl request ctx = Returns doc (ws @ dws)"
    by (simp add: getSitemapXml_def raw dd doc_def url_def)
  have mem': "InvalidSitemapEntries rid \<in> set (ws @ dws)"
    using mem by simp
  have blocks: "\<exists>e' pre post.
          find (\<lambda>x. route x = route e) others = Some e' \<and> route e' = route e
          \<and> doc = pre @ getEntry url e' @ post"
    if "e \<in> set others" for e
  proof -
    from find_first_with_route [OF that] obtain e'
      where e': "find (\<lambda>x. route x = route e) others = Some e'" "route e' = route e"
      by blast
    have "e' \<in> set (fst (dedupe others ([], [])))"
      by (rule dedupe_first_seen [OF _ e'(1)]) simp
    from sitemap_document_contains [OF this, of url] obtain pre post
      where "doc = pre @ getEntry url e' @ post"
      by (auto simp: doc_def)
    with e' show ?thesis by blast
  qed
  have routes: "route ` set others = route ` set (fst (dedupe others ([], [])))"
    using dedupe_routes [of others "[]" "[]"] by simp
  show ?thesis
    using one raw mem xml mem' blocks routes
    unfolding others_def [symmetric] url_def [symmetric] getEntry_text
    by (auto simp: doc_def)
qed

text \<open>
  On the example, where the route \<^verbatim>\<open>routes/bad\<close> returns the priority 1.5, the document
  holds the two entries of \<^verbatim>\<open>routes/blog\<close> and the entry of \<^verbatim>\<open>routes/blog.posts\<close>.
\<close>

theorem invalid_route_is_dropped_alone_witness:
  \<open>collect_route collector_context () (''routes/bad'', function_module bad_priority_function)
     = Returns None [InvalidSitemapEntries ''routes/bad'']
   \<and> entries_of_routes collector_context () (collector_before @ collector_after)
       = [january_entry,
          \<lparr> route = ''/blog/first'', lastmod = Absent, changefreq = Absent, priority = Absent \<rparr>,
          \<lparr> route = ''/blog/posts'', lastmod = Absent, changefreq = Absent, priority = Absent \<rparr>]
   \<and> getSitemapXml (\<lambda>request. ''https://example.com'') () collector_context
       = Returns
           (''<?xml version="1.0" encoding="UTF-8"?>'' @ [CHR 0x0A]
            @ ''<urlset'' @ [CHR 0x0A, CHR 0x09]
            @ ''xmlns="http://www.sitemaps.org/schemas/sitemap/0.9"'' @ [CHR 0x0A, CHR 0x09]
            @ ''xmlns:xsi="http://www.w3.org/2001/XMLSchema-instance"'' @ [CHR 0x0A, CHR 0x09]
            @ ''xsi:schemaLocation="http://www.sitemaps.org/schemas/sitemap/0.9 http://www.sitemaps.org/schemas/sitemap/0.9/sitemap.xsd"''
            @ [CHR 0x0A] @ ''>'' @ [CHR 0x0A, CHR 0x09]
            @ ''<url>'' @ [CHR 0x0A, CHR 0x09]
            @ ''<loc>https://example.com/blog</loc>'' @ [CHR 0x0A, CHR 0x09]
            @ ''<lastmod>2024-01-01T00:00:00.000Z</lastmod>'' @ [CHR 0x0A, CHR 0x09]
            @ ''<changefreq>weekly</changefreq>'' @ [CHR 0x0A, CHR 0x09]
            @ ''<priority>0.8</priority>'' @ [CHR 0x0A]
            @ ''</url>''
            @ ''<url>'' @ [CHR 0x0A, CHR 0x09]
            @ ''<loc>https://example.com/blog/first</loc>''
            @ [CHR 0x0A, CHR 0x09, CHR 0x0A, CHR 0x09, CHR 0x0A, CHR 0x09, CHR 0x0A]
            @ ''</url>''
            @ ''<url>'' @ [CHR 0x0A, CHR 0x09]
            @ ''<loc>https://example.com/blog/posts</loc>''
            @ [CHR 0x0A, CHR 0x09, CHR 0x0A, CHR 0x09, CHR 0x0A, CHR 0x09, CHR 0x0A]
            @ ''</url>'' @ [CHR 0x0A]
            @ ''</urlset>'')
           [InvalidSitemapEntries ''routes/bad'']\<close>
proof -
  have h1: "routeModules collector_context
              = collector_before @ (''routes/bad'', function_module bad_priority_function) # collector_after"
    by (simp add: collector_context_def)
  have h2: "''routes/bad'' \<noteq> ''root''" by simp
  have h3: "handle (function_module bad_priority_function)
              = HandleObject (GseFunction bad_priority_function)"
    by (simp add: function_module_def)
  have h4: "bad_priority_function \<lparr> arg_id = ''routes/bad'', arg_request = () \<rparr>
              = Inr (RObject [(''route'', RString ''/bad''), (''priority'', RNumber (3/2))])"
    by (simp add: bad_priority_function_def)
  have h5: "fails_validation (RObject [(''route'', RString ''/bad''), (''priority'', RNumber (3/2))])"
    by (simp add: fails_validation_def schema_defs)
  have c1: "collect_route collector_context () (''root'', plain_module) = Returns None []"
    by (simp add: collect_route_def)
  have c2: "collect_route collector_context () (''routes/blog'', function_module blog_function)
              = Returns (Some [january_entry,
                  \<lparr> route = ''/blog/first'', lastmod = Absent, changefreq = Absent, priority = Absent \<rparr>]) []"
    by (simp add: collector_defs function_module_def blog_function_def schema_defs january_entry_def)
  have c3: "collect_route collector_context () (''routes/blog.posts'', plain_module)
              = Returns (Some [\<lparr> route = ''/blog/posts'', lastmod = Absent, changefreq = Absent,
                  priority = Absent \<rparr>]) []"
    by (simp add: collector_defs collector_example_defs schema_defs defaultGetSitemapHandle_def
        walk_parents.simps resolver_defs)
  have c4: "collect_route collector_context () (''routes/sitemap[.]xml'', resource_module)
              = Returns None []"
    by (simp add: collector_defs resource_module_def)
  have h6: "list_all (\<lambda>r. returns (collect_route collector_context () r))
              (collector_before @ collector_after)"
    by (simp add: collector_before_def collector_after_def c1 c2 c3 c4 returns_Returns)
  have ents: "entries_of_routes collector_context () (collector_before @ collector_after)
       = [january_entry,
          \<lparr> route = ''/blog/first'', lastmod = Absent, changefreq = Absent, priority = Absent \<rparr>,
          \<lparr> route = ''/blog/posts'', lastmod = Absent, changefreq = Absent, priority = Absent \<rparr>]"
    by (simp add: entries_of_routes_def collector_before_def collector_after_def c1 c2 c3 c4
        returned_entries_Returns)
  note inst = invalid_route_is_dropped_alone [OF h1 h2 h3 h4 h5 h6, of "\<lambda>request. ''https://example.com''"]
  from inst have one: "collect_route collector_context () (''routes/bad'', function_module bad_priority_function)
     = Returns None [InvalidSitemapEntries ''routes/bad'']"
    by blast
  from inst obtain ws where raw: "rawSitemapEntries collector_context ()
      = Returns (entries_of_routes collector_context () (collector_before @ collector_after)) ws"
    by blast
  have ws: "ws = [InvalidSitemapEntries ''routes/bad'']"
    using raw
    by (simp add: rawSitemapEntries_def h1 collector_before_def collector_after_def c1 c2 c3 c4 one
        split: outcome.splits)
  have dd: "dedupe [january_entry,
          \<lparr> route = ''/blog/first'', lastmod = Absent, changefreq = Absent, priority = Absent \<rparr>,
          \<lparr> route = ''/blog/posts'', lastmod = Absent, changefreq = Absent, priority = Absent \<rparr>]
          ([], [])
        = ([january_entry,
          \<lparr> route = ''/blog/first'', lastmod = Absent, changefreq = Absent, priority = Absent \<rparr>,
          \<lparr> route = ''/blog/posts'', lastmod = Absent, changefreq = Absent, priority = Absent \<rparr>], [])"
    by (simp add: january_entry_def)
  have xml: "getSitemapXml (\<lambda>request. ''https://example.com'') () collector_context
      = Returns (sitemap_document ''https://example.com'' [january_entry,
          \<lparr> route = ''/blog/first'', lastmod = Absent, changefreq = Absent, priority = Absent \<rparr>,
          \<lparr> route = ''/blog/posts'', lastmod = Absent, changefreq = Absent, priority = Absent \<rparr>])
          [InvalidSitemapEntries ''routes/bad'']"
    by (simp add: getSitemapXml_def raw ents ws dd del: dedupe.simps)
  show ?thesis
    unfolding xml
    using one ents
    by (simp add: sitemap_document_text getEntry_text january_entry_def number_toString_def
        newline_def tab_def)
qed

text \<open>
  Claim C5 does not hold on the code. The type of an entry function allows an array with
  \<^verbatim>\<open>null\<close> elements and the collector ends with \<^verbatim>\<open>.filter(Boolean)\<close>, but the schema of the
  array, \<^verbatim>\<open>z.array(SitemapEntrySchema).nullable()\<close>, accepts \<^verbatim>\<open>null\<close> for the array only, not
  for its elements. Whenever the array an entry function returns holds a \<^verbatim>\<open>null\<close>, the
  validation fails and the collector drops the whole route with a warning.
\<close>

theorem array_with_null_is_discarded:
  assumes "rid \<noteq> ''root''"
    and "handle m = HandleObject (GseFunction f)"
    and "f \<lparr> arg_id = rid, arg_request = request \<rparr> = Inr (RArray xs)"
    and "RNull \<in> set xs"
  shows "collect_route ctx request (rid, m) = Returns None [InvalidSitemapEntries rid]"
proof -
  have "SitemapEntrySchema_safeParse RNull = None"
    by (simp add: SitemapEntrySchema_safeParse_def)
  then have "those (map SitemapEntrySchema_safeParse xs) = None"
    using assms(4) by (rule those_map_None [rotated])
  then have "fails_validation (RArray xs)"
    by (simp add: fails_validation_def rawEntryArray_def SitemapEntriesSchema_safeParse_def)
  then show ?thesis
    by (rule collect_route_invalid [OF assms(1) assms(2) assms(3)])
qed

theorem array_with_null_is_discarded_witness:
  "collect_route nulls_context () (''routes/a'', function_module nulls_function)
     = Returns None [InvalidSitemapEntries ''routes/a'']
   \<and> rawSitemapEntries nulls_context () = Returns [] [InvalidSitemapEntries ''routes/a'']"
proof -
  have h1: "''routes/a'' \<noteq> ''root''" by simp
  have h2: "handle (function_module nulls_function) = HandleObject (GseFunction nulls_function)"
    by (simp add: function_module_def)
  have h3: "nulls_function \<lparr> arg_id = ''routes/a'', arg_request = () \<rparr>
              = Inr (RArray [RObject [(''route'', RString ''/a'')], RNull])"
    by (simp add: nulls_function_def)
  have h4: "RNull \<in> set [RObject [(''route'', RString ''/a'')], RNull]" by simp
  have one: "collect_route nulls_context () (''routes/a'', function_module nulls_function)
               = Returns None [InvalidSitemapEntries ''routes/a'']"
    by (rule array_with_null_is_discarded [OF h1 h2 h3 h4])
  have root: "collect_route nulls_context () (''root'', plain_module) = Returns None []"
    by (simp add: collect_route_def)
  have modules: "routeModules nulls_context
                   = [(''root'', plain_module), (''routes/a'', function_module nulls_function)]"
    by (simp add: nulls_context_def)
  have "rawSitemapEntries nulls_context () = Returns [] [InvalidSitemapEntries ''routes/a'']"
    by (simp add: rawSitemapEntries_def modules one root flatten_results_def)
  with one show ?thesis by simp
qed

section \<open>Claims about the deduplicator and the serializer\<close>

text \<open>
  Claim C2 does not hold on the code in one case. \<^verbatim>\<open>isEqual\<close> compares the number of keys of
  the two entries and then the values under the keys of the first one only. The first route
  below returns \<^verbatim>\<open>{ route: '/a', lastmod: undefined }\<close>, the second
  \<^verbatim>\<open>{ route: '/a', priority: 0.5 }\<close>. Both entries have two keys, and the second reads
  \<^verbatim>\<open>undefined\<close> under \<^verbatim>\<open>lastmod\<close>: the entries differ in priority, \<^verbatim>\<open>isEqual\<close> returns true,
  the later entry is dropped and no warning is written. (Identical entries merge without a
  warning, \<open>dedupe_identical\<close>, and the warning is written whenever the first entry has the
  key \<^verbatim>\<open>priority\<close>, \<open>isEqual_priority_differs\<close>.)
\<close>

theorem undefined_key_hides_priority_conflict:
  "rawSitemapEntries conflict_context () = Returns [undefined_lastmod_entry, priority_entry] []
   \<and> route undefined_lastmod_entry = route priority_entry
   \<and> priority undefined_lastmod_entry \<noteq> priority priority_entry
   \<and> isEqual undefined_lastmod_entry priority_entry
   \<and> dedupe [undefined_lastmod_entry, priority_entry] ([], []) = ([undefined_lastmod_entry], [])
   \<and> getSitemapXml (\<lambda>request. ''https://example.com'') () conflict_context
       = Returns (sitemap_document ''https://example.com'' [undefined_lastmod_entry]) []"
proof -
  have raw: "rawSitemapEntries conflict_context ()
               = Returns [undefined_lastmod_entry, priority_entry] []"
    by (simp add: rawSitemapEntries_def flatten_results_def collector_defs collector_example_defs
        schema_defs undefined_lastmod_entry_def priority_entry_def)
  have eq: "isEqual undefined_lastmod_entry priority_entry"
    by (simp add: isEqual_defs undefined_lastmod_entry_def priority_entry_def)
  have dd: "dedupe [undefined_lastmod_entry, priority_entry] ([], []) = ([undefined_lastmod_entry], [])"
    using eq by (simp add: undefined_lastmod_entry_def priority_entry_def)
  have xml: "getSitemapXml (\<lambda>request. ''https://example.com'') () conflict_context
       = Returns (sitemap_document ''https://example.com'' [undefined_lastmod_entry]) []"
    by (simp add: getSitemapXml_def raw dd del: dedupe.simps)
  show ?thesis
    using raw eq dd xml by (simp add: undefined_lastmod_entry_def priority_entry_def)
qed

text \<open>
  Claim C10. Two entries with the same route, the same change frequency and the same
  priority, each with a Date under \<^verbatim>\<open>lastmod\<close>, are equal for \<^verbatim>\<open>isEqual\<close> whatever the two
  Dates are. The deduplicator keeps the first and writes no warning, for the pair alone and
  at any point of its loop where the first entry is the one found for the route.
\<close>

theorem lastmod_difference_is_ignored:
  assumes "route e2 = route e1"
    and "changefreq e2 = changefreq e1"
    and "priority e2 = priority e1"
    and "lastmod e1 = Defined d1"
    and "lastmod e2 = Defined d2"
  shows "isEqual e1 e2
     \<and> dedupe [e1, e2] ([], []) = ([e1], [])
     \<and> (find (\<lambda>e. route e = route e2) acc = Some e1 \<longrightarrow>
          dedupe (e2 # rest) (acc, ws) = dedupe rest (acc, ws))"
proof -
  have "isEqual e1 e2"
    using assms by (simp add: isEqual_defs list_all_iff)
  then show ?thesis
    using assms(1) by simp
qed

theorem lastmod_difference_is_ignored_witness:
  "lastmod january_entry \<noteq> lastmod june_entry
   \<and> isEqual january_entry june_entry
   \<and> dedupe [january_entry, june_entry] ([], []) = ([january_entry], [])"
proof -
  have h1: "route june_entry = route january_entry"
    and h2: "changefreq june_entry = changefreq january_entry"
    and h3: "priority june_entry = priority january_entry"
    and h4: "lastmod january_entry = Defined ''2024-01-01T00:00:00.000Z''"
    and h5: "lastmod june_entry = Defined ''2024-06-01T00:00:00.000Z''"
    by (simp_all add: january_entry_def june_entry_def)
  show ?thesis
    using lastmod_difference_is_ignored [OF h1 h2 h3 h4 h5] by (simp add: h4 h5)
qed

text \<open>
  Claim C6 does not hold on the code. \<^verbatim>\<open>getEntry\<close> tests the truthiness of each optional
  field, and the number 0 is falsy: the schema accepts the priority 0.0, and the block of an
  entry with that priority has no \<^verbatim>\<open><priority>\<close> element.
\<close>

theorem zero_priority_is_not_serialized:
  "SitemapEntriesSchema_safeParse
       (RArray [RObject [(''route'', RString ''/a''), (''priority'', RNumber 0)]])
     = Some (Some [zero_priority_entry])
   \<and> priority zero_priority_entry = Defined 0
   \<and> priority_element zero_priority_entry = []
   \<and> priority_element january_entry = ''<priority>0.8</priority>''
   \<and> getEntry ''https://example.com'' zero_priority_entry
       = ''<url>'' @ newline @ tab @ ''<loc>https://example.com/a</loc>'' @ newline
         @ tab @ newline @ tab @ newline @ tab @ newline @ ''</url>''"
  by (simp add: schema_defs serializer_defs zero_priority_entry_def january_entry_def)

end
